theory Spec2Isabelle
  imports Complex_Main "HOL-Library.Sublist" "HOL-Library.Multiset"
begin

section \<open>Strings\<close>

text \<open>
  A Python \<open>str\<close> is a sequence of Unicode code points; a code point is an integer
  here, so that \<open>len\<close>, slicing and the Arabic range \<open>U+0600..U+06FF\<close> count
  what Python counts. \<open>ascii\<close> turns an ASCII literal into such a string.

  Scope of the character tables: \<open>str.lower\<close> is modelled on the ASCII letters (other
  code points are left as they are, which is exact for caseless scripts such as Arabic),
  \<open>\d\<close> on the ASCII digits, and \<open>\w\<close> on ASCII letters, digits and the underscore,
  with every non-whitespace code point above 127 taken as a word character. Whitespace is
  the full table of \<open>str.isspace\<close>, which is also the \<open>\s\<close> of \<open>re\<close> on \<open>str\<close> patterns.
\<close>

type_synonym ustr = "int list"

definition ascii :: "string \<Rightarrow> ustr" where
  "ascii s = map of_char s"

definition lower_cp :: "int \<Rightarrow> int" where
  "lower_cp c = (if 65 \<le> c \<and> c \<le> 90 then c + 32 else c)"

definition py_lower :: "ustr \<Rightarrow> ustr" where
  "py_lower s = map lower_cp s"

definition is_space :: "int \<Rightarrow> bool" where
  "is_space c \<longleftrightarrow>
     (9 \<le> c \<and> c \<le> 13) \<or> (28 \<le> c \<and> c \<le> 32) \<or> c = 133 \<or> c = 160 \<or> c = 5760 \<or>
     (8192 \<le> c \<and> c \<le> 8202) \<or> c = 8232 \<or> c = 8233 \<or> c = 8239 \<or> c = 8287 \<or> c = 12288"

definition is_digit :: "int \<Rightarrow> bool" where
  "is_digit c \<longleftrightarrow> 48 \<le> c \<and> c \<le> 57"

definition is_word :: "int \<Rightarrow> bool" where
  "is_word c \<longleftrightarrow>
     is_digit c \<or> (65 \<le> c \<and> c \<le> 90) \<or> (97 \<le> c \<and> c \<le> 122) \<or> c = 95 \<or>
     (128 \<le> c \<and> \<not> is_space c)"

text \<open>\<open>sub in s\<close> on strings: \<open>sub\<close> occurs in \<open>s\<close> as a contiguous piece.\<close>

abbreviation py_in :: "ustr \<Rightarrow> ustr \<Rightarrow> bool" where
  "py_in sub s \<equiv> sublist sub s"

definition py_strip :: "ustr \<Rightarrow> ustr" where
  "py_strip s = rev (dropWhile is_space (rev (dropWhile is_space s)))"

text \<open>\<open>s.split(sep)\<close> for a one-character separator: empty pieces are kept.\<close>

fun split_on :: "int \<Rightarrow> ustr \<Rightarrow> ustr list" where
  "split_on sep [] = [[]]"
| "split_on sep (c # cs) =
     (if c = sep then [] # split_on sep cs
      else (case split_on sep cs of
              w # ws \<Rightarrow> (c # w) # ws
            | [] \<Rightarrow> [[c]]))"

text \<open>\<open>s.split()\<close>: the maximal runs of non-whitespace characters.\<close>

function py_split :: "ustr \<Rightarrow> ustr list" where
  "py_split s =
     (case dropWhile is_space s of
        [] \<Rightarrow> []
      | c # cs \<Rightarrow>
          takeWhile (\<lambda>x. \<not> is_space x) (c # cs) #
          py_split (dropWhile (\<lambda>x. \<not> is_space x) cs))"
  by pat_completeness auto
termination
proof (relation "measure length")
  show "wf (measure length)" by simp
next
  fix s :: ustr and c cs
  assume a: "dropWhile is_space s = c # cs"
  have "length (dropWhile (\<lambda>x. \<not> is_space x) cs) \<le> length cs"
    by (rule length_dropWhile_le)
  moreover have "length (c # cs) \<le> length s"
    using length_dropWhile_le [of is_space s] a by simp
  ultimately show "(dropWhile (\<lambda>x. \<not> is_space x) cs, s) \<in> measure length"
    by simp
qed

declare py_split.simps [simp del]

fun py_join :: "ustr \<Rightarrow> ustr list \<Rightarrow> ustr" where
  "py_join sep [] = []"
| "py_join sep [w] = w"
| "py_join sep (w # v # ws) = w @ sep @ py_join sep (v # ws)"

section \<open>Regular expressions\<close>

text \<open>
  The patterns of \<open>views.py\<close> are built from single characters, character classes,
  sequencing, the greedy \<open>*\<close>, \<open>+\<close> and \<open>?\<close>, and \<open>$\<close>. \<open>rmatch\<close> is the backtracking
  matcher of \<open>re\<close>: it returns what is left of the string after each way the pattern can
  match at the start, in the order in which \<open>re\<close> tries them (a greedy operator tries one
  more repetition first). The head of that list is the match \<open>re\<close> reports.
\<close>

datatype cclass =
    Ch int
  | Dot
  | Digit
  | Space
  | NotNewline
  | NotWordSpace
  | Range int int

datatype regex =
    Eps
  | Atom cclass
  | Seq regex regex
  | Star regex
  | Opt regex
  | Eol

fun cmatch :: "bool \<Rightarrow> cclass \<Rightarrow> int \<Rightarrow> bool" where
  "cmatch ic (Ch c) x = (if ic then lower_cp x = lower_cp c else x = c)"
| "cmatch ic Dot x = (x \<noteq> 10)"
| "cmatch ic Digit x = is_digit x"
| "cmatch ic Space x = is_space x"
| "cmatch ic NotNewline x = (x \<noteq> 10)"
| "cmatch ic NotWordSpace x = (\<not> is_word x \<and> \<not> is_space x)"
| "cmatch ic (Range a b) x = (a \<le> x \<and> x \<le> b)"

fun rmatch :: "bool \<Rightarrow> regex \<Rightarrow> ustr \<Rightarrow> ustr list" where
  "rmatch ic Eps s = [s]"
| "rmatch ic (Atom c) [] = []"
| "rmatch ic (Atom c) (x # xs) = (if cmatch ic c x then [xs] else [])"
| "rmatch ic (Seq r1 r2) s = concat (map (rmatch ic r2) (rmatch ic r1 s))"
| "rmatch ic (Star r) s =
     concat (map (\<lambda>s'. if length s' < length s then rmatch ic (Star r) s' else [])
                 (rmatch ic r s)) @ [s]"
| "rmatch ic (Opt r) s = rmatch ic r s @ [s]"
| "rmatch ic Eol s = (if s = [] \<or> s = [10] then [s] else [])"

definition Plus :: "regex \<Rightarrow> regex" where
  "Plus r = Seq r (Star r)"

fun lit :: "ustr \<Rightarrow> regex" where
  "lit [] = Eps"
| "lit (c # cs) = Seq (Atom (Ch c)) (lit cs)"

definition first_match :: "bool \<Rightarrow> regex \<Rightarrow> ustr \<Rightarrow> ustr option" where
  "first_match ic r s = (case rmatch ic r s of [] \<Rightarrow> None | s' # _ \<Rightarrow> Some s')"

text \<open>
  \<open>re.search\<close>: the leftmost position at which the pattern matches. The result is the
  string from that position on, and what is left after the match.
\<close>

fun re_search :: "bool \<Rightarrow> regex \<Rightarrow> ustr \<Rightarrow> (ustr \<times> ustr) option" where
  "re_search ic r [] = (case first_match ic r [] of None \<Rightarrow> None | Some s' \<Rightarrow> Some ([], s'))"
| "re_search ic r (c # cs) =
     (case first_match ic r (c # cs) of
        None \<Rightarrow> re_search ic r cs
      | Some s' \<Rightarrow> Some (c # cs, s'))"

text \<open>
  \<open>re.sub(pattern, repl, s)\<close>: every non-overlapping match, from the left, is replaced.
  An empty match is replaced too and the scan moves one character on.
\<close>

function re_sub :: "bool \<Rightarrow> regex \<Rightarrow> ustr \<Rightarrow> ustr \<Rightarrow> ustr" where
  "re_sub ic r repl s =
     (case first_match ic r s of
        None \<Rightarrow> (case s of [] \<Rightarrow> [] | c # cs \<Rightarrow> c # re_sub ic r repl cs)
      | Some s' \<Rightarrow>
          if length s' < length s then repl @ re_sub ic r repl s'
          else (case s of [] \<Rightarrow> repl | c # cs \<Rightarrow> repl @ c # re_sub ic r repl cs))"
  by pat_completeness auto
termination
  by (relation "measure (\<lambda>(ic, r, repl, s). length s)") auto

declare re_sub.simps [simp del]

section \<open>Text normalizer\<close>

definition noise_patterns :: "regex list" where
  "noise_patterns =
     [ lit (ascii ''skip to content''),
       lit (ascii ''your cart is empty''),
       lit (ascii ''continue shopping''),
       lit (ascii ''have an account?''),
       lit (ascii ''log in to check out''),
       lit (ascii ''estimated total''),
       Seq (lit (ascii ''taxes'')) (Seq (Star (Atom Dot)) (lit (ascii ''calculated at checkout''))),
       lit (ascii ''check out''),
       lit (ascii ''loading...''),
       lit (ascii ''add to cart''),
       lit (ascii ''view cart''),
       Seq (lit (ascii ''home'')) (Seq (Star (Atom Dot)) (lit (ascii ''clearance sale''))),
       Seq (lit (ascii ''co-ord sets'')) (Seq (Star (Atom Dot)) (lit (ascii ''elegant floral''))),
       Seq (lit (ascii ''cart'')) (Seq (Star (Atom Dot)) (lit (ascii ''loading''))),
       Seq (lit (ascii ''Rs '')) (Seq (Plus (Atom Digit)) (Seq (lit (ascii ''.'')) (Plus (Atom Digit)))) ]"

text \<open>\<open>re.match(r'^[^\w\s]+$', line)\<close>\<close>

definition only_special :: "ustr \<Rightarrow> bool" where
  "only_special line \<longleftrightarrow> first_match False (Seq (Plus (Atom NotWordSpace)) Eol) line \<noteq> None"

definition clean_scraped_text :: "ustr \<Rightarrow> ustr" where
  "clean_scraped_text text =
     (if text = [] then []
      else
        let cleaned = fold (\<lambda>pattern cleaned. re_sub True pattern [] cleaned) noise_patterns text;
            cleaned = re_sub False (Plus (Atom Space)) [32] cleaned;
            cleaned = re_sub False (Plus (Atom (Ch 10))) [10] cleaned;
            lines = map py_strip (filter (\<lambda>line. py_strip line \<noteq> []) (split_on 10 cleaned));
            meaningful_lines = filter (\<lambda>line. length line > 10 \<and> \<not> only_special line) lines
        in py_strip (py_join [32] meaningful_lines))"

definition nav_terms :: "ustr list" where
  "nav_terms = map ascii [''home'', ''cart'', ''checkout'', ''log in'', ''sign up'']"

definition extract_product_info :: "ustr \<Rightarrow> ustr option \<Rightarrow> ustr" where
  "extract_product_info text title =
     (let cleaned = clean_scraped_text text;
          sentences = split_on 46 cleaned;
          product_sentences =
            filter (\<lambda>sent. 5 \<le> length (py_split sent) \<and> length (py_split sent) \<le> 100 \<and>
                            \<not> list_ex (\<lambda>nav. py_in nav (py_lower sent)) nav_terms)
                   (map py_strip sentences)
      in if product_sentences \<noteq> [] then
           (let result = py_join (ascii ''. '') (take 3 product_sentences)
            in if result \<noteq> [] then result @ ascii ''.'' else take 300 cleaned)
         else take 300 cleaned)"

section \<open>Query classifier\<close>

datatype language = urdu | english

definition urdu_words :: "ustr list" where
  "urdu_words = map ascii [''mujhe'', ''kaun'', ''kon'', ''kaha'', ''dikhao'', ''dikho'',
                           ''kya'', ''kaise'', ''batao'', ''chahiye'', ''hai'', ''ki'', ''ap'']"

definition detect_language :: "ustr \<Rightarrow> language" where
  "detect_language text =
     (if re_search False (Atom (Range 1536 1791)) text \<noteq> None then urdu
      else if list_ex (\<lambda>word. py_in word (py_lower text)) urdu_words then urdu
      else english)"

section \<open>Content store and recent-suggestions memory\<close>

text \<open>
  \<open>PageContent\<close> of \<open>models.py\<close>; \<open>title\<close> is nullable. \<open>last_scraped\<close> only orders the
  rows: the store is the list of rows in the order in which \<open>PageContent.objects.all()\<close>
  yields them. \<open>LAST_SUGGESTED_PRODUCTS\<close> is the module-level list of urls.
\<close>

record page_content =
  url :: ustr
  page :: ustr
  title :: "ustr option"
  content :: ustr
  page_type :: ustr
  is_active :: bool

record bot_state =
  pages :: "page_content list"
  last_suggested :: "ustr list"

text \<open>
  \<open>LAST_SUGGESTED_PRODUCTS.append(u)\<close>, then \<open>pop(0)\<close> when the list has grown beyond ten.
\<close>

definition remember :: "ustr \<Rightarrow> ustr list \<Rightarrow> ustr list" where
  "remember u ls = (let ls' = ls @ [u] in if length ls' > 10 then tl ls' else ls')"

text \<open>
  The random source is a parameter: \<open>random.choice(xs)\<close> is \<open>xs[i]\<close> for an index \<open>i\<close>
  that the generator draws below \<open>len(xs)\<close>; \<open>random.sample(xs, k)\<close> takes \<open>k\<close> elements at
  successively drawn positions, without replacement.
\<close>

definition random_choice :: "nat \<Rightarrow> 'a list \<Rightarrow> 'a" where
  "random_choice draw xs = xs ! (draw mod length xs)"

fun random_sample :: "(nat \<Rightarrow> nat) \<Rightarrow> 'a list \<Rightarrow> nat \<Rightarrow> 'a list" where
  "random_sample rnd xs 0 = []"
| "random_sample rnd [] (Suc k) = []"
| "random_sample rnd (x # xs) (Suc k) =
     (let i = rnd 0 mod length (x # xs)
      in (x # xs) ! i # random_sample (\<lambda>j. rnd (Suc j)) (take i (x # xs) @ drop (Suc i) (x # xs)) k)"

section \<open>Price path\<close>

text \<open>
  A pattern with one capturing group at its end, \<open>pre(grp)\<close>: the text of the group in the
  first match at the start of the string, and the leftmost such match in the string.
\<close>

definition group_match :: "bool \<Rightarrow> regex \<Rightarrow> regex \<Rightarrow> ustr \<Rightarrow> ustr option" where
  "group_match ic pre grp s =
     (case concat (map (\<lambda>s1. map (\<lambda>s2. take (length s1 - length s2) s1) (rmatch ic grp s1))
                       (rmatch ic pre s)) of
        [] \<Rightarrow> None
      | g # _ \<Rightarrow> Some g)"

fun re_search_group :: "bool \<Rightarrow> regex \<Rightarrow> regex \<Rightarrow> ustr \<Rightarrow> ustr option" where
  "re_search_group ic pre grp [] = group_match ic pre grp []"
| "re_search_group ic pre grp (c # cs) =
     (case group_match ic pre grp (c # cs) of
        None \<Rightarrow> re_search_group ic pre grp cs
      | Some g \<Rightarrow> Some g)"

text \<open>\<open>Rs\.?(\d+(?:,\d{3})*(?:\.\d{2})?)\<close>\<close>

definition price_pre :: regex where
  "price_pre = Seq (lit (ascii ''Rs'')) (Opt (Atom (Ch 46)))"

definition price_grp :: regex where
  "price_grp =
     Seq (Plus (Atom Digit))
       (Seq (Star (Seq (Atom (Ch 44)) (Seq (Atom Digit) (Seq (Atom Digit) (Atom Digit)))))
            (Opt (Seq (Atom (Ch 46)) (Seq (Atom Digit) (Atom Digit)))))"

text \<open>
  \<open>float(s)\<close> on the strings that reach it here: the group of the price pattern with its
  commas removed is a decimal numeral, \<open>digits\<close> or \<open>digits.digits\<close>, and its value is
  taken as an exact rational. \<open>None\<close> stands for the \<open>ValueError\<close> that the \<open>except\<close> of
  \<open>handle_price_query\<close> skips. Python rounds a price of more than 15 significant digits
  to the nearest float; the order of two prices is the same unless they round to the
  same float.
\<close>

definition digits_val :: "ustr \<Rightarrow> int" where
  "digits_val ds = fold (\<lambda>d acc. acc * 10 + (d - 48)) ds 0"

definition py_float :: "ustr \<Rightarrow> rat option" where
  "py_float s =
     (let ip = takeWhile is_digit s; rest = dropWhile is_digit s
      in if rest = [] then (if ip = [] then None else Some (of_int (digits_val ip)))
         else if hd rest = 46 \<and> list_all is_digit (tl rest) \<and> (ip \<noteq> [] \<or> tl rest \<noteq> [])
         then Some (of_int (digits_val ip) + of_int (digits_val (tl rest)) / of_int (10 ^ length (tl rest)))
         else None)"

record priced =
  p_title :: "ustr option"
  p_price :: rat
  p_content :: ustr

text \<open>The body of the loop over the products: the entry of one product, if it has a price.\<close>

definition priced_of :: "page_content \<Rightarrow> priced option" where
  "priced_of product =
     (case re_search_group False price_pre price_grp (content product) of
        None \<Rightarrow> None
      | Some g \<Rightarrow>
          (case py_float (filter (\<lambda>c. c \<noteq> 44) g) of
             None \<Rightarrow> None
           | Some price \<Rightarrow>
               Some \<lparr>p_title = title product, p_price = price,
                     p_content = take 300 (content product)\<rparr>))"

definition products_with_price :: "page_content list \<Rightarrow> priced list" where
  "products_with_price all_pages =
     List.map_filter priced_of
       (filter (\<lambda>product. page_type product = ascii ''product'') all_pages)"

definition cheap_keywords :: "ustr list" where
  "cheap_keywords = map ascii [''sasta'', ''cheap'', ''budget'', ''affordable'']"

text \<open>\<open>str(n)\<close> for an integer.\<close>

function digits_of :: "int \<Rightarrow> ustr" where
  "digits_of n = (if n < 10 then [48 + n] else digits_of (n div 10) @ [48 + n mod 10])"
  by pat_completeness auto
termination
  by (relation "measure nat") auto

declare digits_of.simps [simp del]

definition py_str_int :: "int \<Rightarrow> ustr" where
  "py_str_int n = (if n < 0 then 45 # digits_of (- n) else digits_of n)"

definition str_opt :: "ustr option \<Rightarrow> ustr" where
  "str_opt t = (case t of None \<Rightarrow> ascii ''None'' | Some s \<Rightarrow> s)"

text \<open>The products listed, and the lines \<open>i. title - Rs.price\<close> numbered from \<open>i\<close>.\<close>

definition selected_products :: "ustr \<Rightarrow> priced list \<Rightarrow> priced list" where
  "selected_products query_lower pwp =
     (if list_ex (\<lambda>word. py_in word query_lower) cheap_keywords
      then take 3 (sort_key p_price pwp)
      else take 3 (sort_key (\<lambda>x. - p_price x) pwp))"

fun price_lines :: "int \<Rightarrow> priced list \<Rightarrow> ustr" where
  "price_lines i [] = []"
| "price_lines i (p # ps) =
     py_str_int i @ ascii ''. '' @ str_opt (p_title p) @ ascii '' - Rs.'' @
     py_str_int (\<lfloor>p_price p\<rfloor>) @ [10] @ price_lines (i + 1) ps"

definition price_header :: "ustr \<Rightarrow> language \<Rightarrow> ustr" where
  "price_header query_lower lang =
     (if list_ex (\<lambda>word. py_in word query_lower) cheap_keywords
      then (if lang = urdu then [127775] @ ascii '' Sabse saste options:'' @ [10, 10]
            else [127775] @ ascii '' Most affordable options:'' @ [10, 10])
      else [127775] @ ascii '' Premium options:'' @ [10, 10])"

definition price_footer :: "language \<Rightarrow> ustr" where
  "price_footer lang =
     (if lang = urdu then [10] @ ascii ''Kaunsa dekhna chahein? '' @ [128522]
      else [10] @ ascii ''Which one would you like to see? '' @ [128522])"

type_synonym search_result = "ustr option \<times> rat \<times> ustr option"

definition handle_price_query :: "ustr \<Rightarrow> page_content list \<Rightarrow> search_result" where
  "handle_price_query query_lower all_pages =
     (let lang = detect_language query_lower;
          pwp = products_with_price all_pages
      in if pwp = [] then (None, 0, None)
         else (Some (price_header query_lower lang @
                     price_lines 1 (selected_products query_lower pwp) @
                     price_footer lang),
               95 / 100, Some (ascii ''Price Comparison'')))"

section \<open>Matcher\<close>

definition price_keywords :: "ustr list" where
  "price_keywords = map ascii [''sasta'', ''cheap'', ''mehnga'', ''expensive'', ''price'', ''budget'']"

definition colors :: "ustr list" where
  "colors = map ascii [''red'', ''blue'', ''green'', ''black'', ''white'', ''pink'', ''yellow'', ''purple'']"

definition categories :: "ustr list" where
  "categories = map ascii [''dress'', ''saree'', ''suit'', ''kurta'', ''shirt'', ''pant'', ''dupatta'']"

text \<open>The body of the loop over the pages: the score and the excerpt of one page.\<close>

definition page_score :: "ustr \<Rightarrow> page_content \<Rightarrow> rat \<times> ustr" where
  "page_score user_query_lower pg =
     (let query_words = filter (\<lambda>w. length w > 2) (py_split user_query_lower);
          query_colors = filter (\<lambda>c. py_in c user_query_lower) colors;
          query_categories = filter (\<lambda>c. py_in c user_query_lower) categories;
          title_lower = py_lower (case title pg of None \<Rightarrow> [] | Some t \<Rightarrow> t);
          clean_content = extract_product_info (content pg) (title pg);
          clean_content_lower = py_lower clean_content
      in if py_in user_query_lower clean_content_lower then (9 / 10, clean_content)
         else if py_in user_query_lower title_lower then (85 / 100, clean_content)
         else if query_colors \<noteq> [] \<and> query_categories \<noteq> [] then
           (let color_match = list_ex (\<lambda>c. py_in c clean_content_lower) query_colors;
                category_match = list_ex (\<lambda>c. py_in c clean_content_lower) query_categories
            in if color_match \<and> category_match then (8 / 10, clean_content)
               else if color_match \<or> category_match then (6 / 10, clean_content)
               else (0, []))
         else if query_words \<noteq> [] then
           (let matches = length (filter (\<lambda>word. py_in word clean_content_lower) query_words);
                score = of_nat matches / of_nat (length query_words)
            in (score, if score > 4 / 10 then clean_content else []))
         else (0, []))"

text \<open>\<open>page.title or "Product"\<close>\<close>

definition shown_title :: "page_content \<Rightarrow> ustr" where
  "shown_title pg = (case title pg of None \<Rightarrow> ascii ''Product''
                     | Some t \<Rightarrow> if t = [] then ascii ''Product'' else t)"

record match =
  m_page :: page_content
  m_score :: rat
  m_excerpt :: ustr
  m_title :: ustr

definition candidate :: "ustr \<Rightarrow> rat \<Rightarrow> ustr list \<Rightarrow> page_content \<Rightarrow> match option" where
  "candidate user_query_lower threshold excluded pg =
     (let (score, excerpt) = page_score user_query_lower pg
      in if score \<ge> threshold \<and> excerpt \<noteq> [] \<and> url pg \<notin> set excluded
         then Some \<lparr>m_page = pg, m_score = score, m_excerpt = excerpt,
                    m_title = shown_title pg\<rparr>
         else None)"

definition all_matches :: "ustr \<Rightarrow> rat \<Rightarrow> bot_state \<Rightarrow> match list" where
  "all_matches user_query_lower threshold st =
     List.map_filter (candidate user_query_lower threshold (last_suggested st)) (pages st)"

text \<open>
  \<open>all_matches.sort(key=score, reverse=True)\<close> is stable, as \<open>sort_key\<close> on the negated
  score is. Scores are exact rationals: the quotient of two word counts and the literals
  it is compared with round to floats in the same order.
\<close>

definition select_match :: "nat \<Rightarrow> match list \<Rightarrow> match option" where
  "select_match draw ms =
     (case sort_key (\<lambda>x. - m_score x) ms of
        [] \<Rightarrow> None
      | best # rest \<Rightarrow>
          if m_score best > 7 / 10 then Some best
          else Some (random_choice draw (take 3 (best # rest))))"

definition search_in_scraped_content ::
  "ustr \<Rightarrow> rat \<Rightarrow> nat \<Rightarrow> bot_state \<Rightarrow> search_result \<times> bot_state" where
  "search_in_scraped_content user_query threshold draw st =
     (let user_query_lower = py_lower user_query
      in if list_ex (\<lambda>word. py_in word user_query_lower) price_keywords
         then (handle_price_query user_query_lower (pages st), st)
         else (case select_match draw (all_matches user_query_lower threshold st) of
                 None \<Rightarrow> ((None, 0, None), st)
               | Some selected \<Rightarrow>
                   ((Some (m_excerpt selected), m_score selected, Some (m_title selected)),
                    st\<lparr>last_suggested := remember (url (m_page selected)) (last_suggested st)\<rparr>)))"

section \<open>Response formatter and handlers\<close>

text \<open>\<open>s.rfind('.')\<close>: the index of the last occurrence, or \<open>-1\<close>.\<close>

fun rfind :: "int \<Rightarrow> ustr \<Rightarrow> int" where
  "rfind c [] = - 1"
| "rfind c (x # xs) =
     (let r = rfind c xs in if r \<ge> 0 then r + 1 else if x = c then 0 else - 1)"

definition truthy_title :: "ustr option \<Rightarrow> bool" where
  "truthy_title t = (case t of None \<Rightarrow> False | Some s \<Rightarrow> s \<noteq> [] \<and> py_lower s \<noteq> ascii ''product'')"

definition format_scraped_response :: "ustr \<Rightarrow> ustr \<Rightarrow> language \<Rightarrow> ustr option \<Rightarrow> ustr" where
  "format_scraped_response excerpt query lang t =
     (let excerpt_clean = py_strip excerpt;
          excerpt_clean =
            (if length excerpt_clean > 300 then
               (let cut = take 300 excerpt_clean; last_period = rfind 46 cut
                in if last_period > 100 then take (nat (last_period + 1)) cut
                   else take 300 cut @ ascii ''...'')
             else excerpt_clean)
      in if lang = urdu then
           (if truthy_title t
            then [10024] @ ascii '' **'' @ str_opt t @ ascii ''**'' @ [10, 10] @ excerpt_clean @
                 [10, 10, 128172] @ ascii '' Aur details chahiye?''
            else excerpt_clean @ [10, 10, 128172] @ ascii '' Kya aur janana chahein?'')
         else
           (if truthy_title t
            then [10024] @ ascii '' **'' @ str_opt t @ ascii ''**'' @ [10, 10] @ excerpt_clean @
                 [10, 10] @ ascii ''Want more details?''
            else excerpt_clean @ [10, 10] @ ascii ''Need more info?''))"

definition get_diverse_product_samples ::
  "nat \<Rightarrow> (nat \<Rightarrow> nat) \<Rightarrow> bot_state \<Rightarrow> page_content list \<times> bot_state" where
  "get_diverse_product_samples limit rnd st =
     (let all_pages = pages st;
          available_pages = filter (\<lambda>p. url p \<notin> set (last_suggested st)) all_pages;
          (available_pages, st') =
            (if available_pages = [] then (all_pages, st\<lparr>last_suggested := []\<rparr>)
             else (available_pages, st))
      in if length available_pages > limit then (random_sample rnd available_pages limit, st')
         else (available_pages, st'))"

text \<open>\<open>Price:\s*([^\n]+)\<close>\<close>

definition suggestion :: "page_content \<Rightarrow> ustr" where
  "suggestion p =
     (let t = shown_title p;
          price = (case re_search_group False (Seq (lit (ascii ''Price:'')) (Star (Atom Space)))
                          (Plus (Atom NotNewline)) (content p) of
                     None \<Rightarrow> [] | Some g \<Rightarrow> g)
      in if price \<noteq> [] then [8226, 32] @ t @ ascii '' - '' @ price else [8226, 32] @ t)"

definition get_direct_alternatives ::
  "ustr \<Rightarrow> language \<Rightarrow> (nat \<Rightarrow> nat) \<Rightarrow> bot_state \<Rightarrow> ustr \<times> bot_state" where
  "get_direct_alternatives user_query lang rnd st =
     (let (products, st') = get_diverse_product_samples 5 rnd st
      in if products = [] then
           (if lang = urdu
            then (ascii ''Maaf kijiye! Abhi products load nahi ho rahe. Thodi der baad try karein.'', st')
            else (ascii ''Sorry! Products not available right now. Please try again later.'', st'))
         else
           (let suggestions_text = py_join [10] (map suggestion (take 3 products))
            in if lang = urdu
               then (ascii ''Yeh options dekh sakte hain:'' @ [10, 10] @ suggestions_text @ [10, 10] @
                     ascii ''Kaunsa pasand aaya? '' @ [128522], st')
               else (ascii ''Here are some options:'' @ [10, 10] @ suggestions_text @ [10, 10] @
                     ascii ''Which one would you like to know more about? '' @ [128522], st')))"

text \<open>
  The values that \<open>json.loads\<close> yields; an object is the list of its keys and values, each
  key once. \<open>body.get(k, default)\<close> exists on a \<open>dict\<close> only; on any other value the
  attribute lookup raises.
\<close>

datatype json =
    JNull
  | JBool bool
  | JNum rat
  | JStr ustr
  | JArr "json list"
  | JObj "(ustr \<times> json) list"

datatype py_error = AttributeError | TypeError

definition py_get :: "json \<Rightarrow> ustr \<Rightarrow> json \<Rightarrow> py_error + json" where
  "py_get d k dflt =
     (case d of
        JObj kvs \<Rightarrow> Inr (case map_of kvs k of None \<Rightarrow> dflt | Some v \<Rightarrow> v)
      | _ \<Rightarrow> Inl AttributeError)"

text \<open>
  \<open>user_query\<close> is whatever \<open>queryText\<close> holds. The first thing \<open>search_in_scraped_content\<close>
  does with it is \<open>user_query.lower()\<close>, an \<open>AttributeError\<close> unless it is a \<open>str\<close>; the
  model raises it at the call.
\<close>

definition handle_llm_query_intent ::
  "json \<Rightarrow> (nat \<Rightarrow> nat) \<Rightarrow> bot_state \<Rightarrow> (py_error + ustr) \<times> bot_state" where
  "handle_llm_query_intent user_query rnd st =
     (case user_query of
        JStr q \<Rightarrow>
          (let ((scraped_excerpt, confidence, t), st1) =
                 search_in_scraped_content q (3 / 10) (rnd 0) st;
               lang = detect_language q;
               alternatives =
                 (let (r, st2) = get_direct_alternatives q lang (\<lambda>j. rnd (Suc j)) st1
                  in (Inr r, st2))
           in case scraped_excerpt of
                None \<Rightarrow> alternatives
              | Some e \<Rightarrow>
                  if e \<noteq> [] \<and> confidence > 7 / 10
                  then (Inr (format_scraped_response e q lang t), st1)
                  else if e \<noteq> [] \<and> confidence > 4 / 10
                  then (Inr (format_scraped_response e q lang t), st1)
                  else alternatives)
      | _ \<Rightarrow> (Inl AttributeError, st))"

text \<open>
  \<open>handle_fallback_intent\<close> starts with \<open>detect_language(user_query)\<close>, whose \<open>re.search\<close>
  raises \<open>TypeError\<close> on anything but a \<open>str\<close>.
\<close>

definition handle_fallback_intent ::
  "json \<Rightarrow> (nat \<Rightarrow> nat) \<Rightarrow> bot_state \<Rightarrow> (py_error + ustr) \<times> bot_state" where
  "handle_fallback_intent user_query rnd st =
     (case user_query of
        JStr q \<Rightarrow>
          (let lang = detect_language q;
               query_lower = py_lower q;
               has = (\<lambda>ws. list_ex (\<lambda>word. py_in word query_lower) (map ascii ws))
           in if has [''hello'', ''hi'', ''salam'', ''hey''] then
                (Inr (if lang = urdu
                      then ascii ''Salam! Main aapki kaise madad kar sakti hoon? Aap apne pasand ka product puch sakte hain. '' @ [128522]
                      else ascii ''Hello! How can I help you today? Feel free to ask about our products. '' @ [128522]), st)
              else if has [''thanks'', ''thank you'', ''shukriya'', ''thankyou''] then
                (Inr (if lang = urdu
                      then ascii ''Khushi hui madad karke! Kuch aur chahiye? '' @ [128522]
                      else ascii ''You're welcome! Anything else I can help with? '' @ [128522]), st)
              else if has [''naam'', ''name'', ''kaun'', ''who''] then
                (Inr (if lang = urdu
                      then ascii ''Main Silk and Saffron ki assistant hoon. Aap mujhse products ke baare mein puch sakte hain! '' @ [128171]
                      else ascii ''I'm Silk and Saffron's assistant. Ask me about our products! '' @ [128171]), st)
              else if has [''bye'', ''khuda hafiz'', ''goodbye''] then
                (Inr (if lang = urdu
                      then ascii ''Khuda hafiz! Dobara zaroor aaiyega. '' @ [128075]
                      else ascii ''Goodbye! Visit us again soon. '' @ [128075]), st)
              else (let (r, st') = get_direct_alternatives q lang rnd st in (Inr r, st')))
      | _ \<Rightarrow> (Inl TypeError, st))"

section \<open>Webhook\<close>

text \<open>
  A request is its method and the result of \<open>json.loads(request.body.decode("utf-8"))\<close>:
  \<open>None\<close> when decoding or parsing raises. A response is a status and a JSON payload.
\<close>

record http_request =
  req_method :: ustr
  req_body :: "json option"

record http_response =
  status :: nat
  payload :: json

definition clarification :: "language \<Rightarrow> ustr" where
  "clarification lang =
     (if lang = urdu
      then ascii ''Maaf kijiye! Kya aap apna sawal thoda detail mein puch sakte hain?''
      else ascii ''Sorry! Could you please provide more details?'')"

definition safety_check :: "ustr \<Rightarrow> ustr \<Rightarrow> ustr" where
  "safety_check user_query answer =
     (if answer = [] \<or> length (py_strip answer) < 5
      then clarification (detect_language user_query)
      else answer)"

text \<open>
  Lines 583 to 599: the query, the intent and the answer of the handler routed to. Every
  intent but \<open>LLMQueryIntent\<close> goes to \<open>handle_fallback_intent\<close>.
\<close>

definition route ::
  "json \<Rightarrow> (nat \<Rightarrow> nat) \<Rightarrow> bot_state \<Rightarrow> (py_error + json \<times> ustr) \<times> bot_state" where
  "route b rnd st =
     (case py_get b (ascii ''queryResult'') (JObj []) of
        Inl e \<Rightarrow> (Inl e, st)
      | Inr qr \<Rightarrow>
          (case py_get qr (ascii ''queryText'') (JStr []) of
             Inl e \<Rightarrow> (Inl e, st)
           | Inr user_query \<Rightarrow>
               (case py_get qr (ascii ''intent'') (JObj []) of
                  Inl e \<Rightarrow> (Inl e, st)
                | Inr it \<Rightarrow>
                    (case py_get it (ascii ''displayName'') (JStr []) of
                       Inl e \<Rightarrow> (Inl e, st)
                     | Inr intent \<Rightarrow>
                         (let (r, st') =
                                (if intent = JStr (ascii ''LLMQueryIntent'')
                                 then handle_llm_query_intent user_query rnd st
                                 else handle_fallback_intent user_query rnd st)
                          in (case r of
                                Inl e \<Rightarrow> (Inl e, st')
                              | Inr answer \<Rightarrow> (Inr (user_query, answer), st')))))))"

definition dialogflow_webhook ::
  "http_request \<Rightarrow> (nat \<Rightarrow> nat) \<Rightarrow> bot_state \<Rightarrow> (py_error + http_response) \<times> bot_state" where
  "dialogflow_webhook request rnd st =
     (if req_method request = ascii ''POST'' then
        (case req_body request of
           None \<Rightarrow>
             (Inr \<lparr>status = 400,
                   payload = JObj [(ascii ''fulfillmentText'',
                                    JStr ([9888, 65039] @ ascii '' Invalid request.''))]\<rparr>, st)
         | Some b \<Rightarrow>
             (case route b rnd st of
                (Inl e, st') \<Rightarrow> (Inl e, st')
              | (Inr (user_query, answer), st') \<Rightarrow>
                  (let answer = safety_check (case user_query of JStr q \<Rightarrow> q | _ \<Rightarrow> []) answer
                   in (Inr \<lparr>status = 200,
                            payload = JObj
                              [(ascii ''fulfillmentText'', JStr answer),
                               (ascii ''fulfillmentMessages'',
                                JArr [JObj [(ascii ''text'',
                                             JObj [(ascii ''text'', JArr [JStr answer])])]]),
                               (ascii ''source'', JStr (ascii ''webhook''))]\<rparr>, st'))))
      else
        (Inr \<lparr>status = 405,
              payload = JObj [(ascii ''error'', JStr (ascii ''Only POST allowed''))]\<rparr>, st))"

section \<open>Reachable states and sample data\<close>

text \<open>
  The states of a running process: it starts with an empty memory, the store changes
  under it (scraping, the admin site), and the memory is written by the matcher, by
  \<open>get_diverse_product_samples\<close> and so by every webhook request.
\<close>

inductive reachable :: "bot_state \<Rightarrow> bool" where
  start: "reachable \<lparr>pages = ps, last_suggested = []\<rparr>"
| store: "reachable st \<Longrightarrow> reachable (st\<lparr>pages := ps\<rparr>)"
| search: "reachable st \<Longrightarrow> reachable (snd (search_in_scraped_content q thr draw st))"
| diverse: "reachable st \<Longrightarrow> reachable (snd (get_diverse_product_samples limit rnd st))"
| request: "reachable st \<Longrightarrow> reachable (snd (dialogflow_webhook req rnd st))"

definition bounded :: "bot_state \<Rightarrow> bool" where
  "bounded st \<longleftrightarrow> length (last_suggested st) \<le> 10"


text \<open>Sample pages, in the format \<open>save_product_to_db\<close> writes, and sample requests.\<close>

definition zero_draws :: "nat \<Rightarrow> nat" where
  "zero_draws = (\<lambda>j. 0)"

definition product_page :: "string \<Rightarrow> string \<Rightarrow> string \<Rightarrow> string \<Rightarrow> bool \<Rightarrow> page_content" where
  "product_page handle t price description active =
     \<lparr>url = ascii ''/products/'' @ ascii handle, page = [], title = Some (ascii t),
      content = ascii ''Product: '' @ ascii t @ [10, 10] @ ascii ''Price: Rs.'' @ ascii price @
                [10, 10] @ ascii ''Description: '' @ ascii description,
      page_type = ascii ''product'', is_active = active\<rparr>"

definition red_dress :: page_content where
  "red_dress = product_page ''red-dress'' ''Red Dress'' ''500.00'' ''A red silk dress'' True"

definition silk_saree :: page_content where
  "silk_saree = product_page ''silk-saree'' ''Silk Saree'' ''1200.00'' ''A handwoven saree'' True"

definition blue_kurta :: page_content where
  "blue_kurta = product_page ''blue-kurta'' ''Blue Kurta'' ''300.00'' ''A blue cotton kurta'' True"

definition shop :: bot_state where
  "shop = \<lparr>pages = [red_dress, silk_saree, blue_kurta], last_suggested = []\<rparr>"

definition query_body :: "json \<Rightarrow> string \<Rightarrow> json" where
  "query_body query_text intent =
     JObj [(ascii ''queryResult'',
            JObj [(ascii ''queryText'', query_text),
                  (ascii ''intent'', JObj [(ascii ''displayName'', JStr (ascii intent))])])]"

definition post :: "json \<Rightarrow> string \<Rightarrow> http_request" where
  "post query_text intent =
     \<lparr>req_method = ascii ''POST'', req_body = Some (query_body query_text intent)\<rparr>"

text \<open>A store whose only page is switched off, and a change of the flags of a store.\<close>

definition hidden_dress :: page_content where
  "hidden_dress = product_page ''red-dress'' ''Red Dress'' ''500.00'' ''A red silk dress'' False"

definition hidden_shop :: bot_state where
  "hidden_shop = \<lparr>pages = [hidden_dress], last_suggested = []\<rparr>"

definition reflag :: "(page_content \<Rightarrow> bool) \<Rightarrow> page_content \<Rightarrow> page_content" where
  "reflag flag p = p\<lparr>is_active := flag p\<rparr>"

definition reflag_match :: "(page_content \<Rightarrow> bool) \<Rightarrow> match \<Rightarrow> match" where
  "reflag_match flag m = m\<lparr>m_page := reflag flag (m_page m)\<rparr>"

definition all_hidden :: "page_content \<Rightarrow> bool" where
  "all_hidden = (\<lambda>p. False)"

text \<open>What the matcher returns when it selects a candidate; more sample stores.\<close>

definition outcome :: "match \<Rightarrow> bot_state \<Rightarrow> search_result \<times> bot_state" where
  "outcome m st =
     ((Some (m_excerpt m), m_score m, Some (m_title m)),
      st\<lparr>last_suggested := remember (url (m_page m)) (last_suggested st)\<rparr>)"

definition dress_shop :: bot_state where
  "dress_shop =
     \<lparr>pages = [product_page ''red-dress'' ''Red Dress'' ''500.00'' ''A red silk dress'' True,
               product_page ''blue-dress'' ''Blue Dress'' ''700.00'' ''A blue lawn dress'' True,
               product_page ''pink-dress'' ''Pink Dress'' ''900.00'' ''A pink party dress'' True],
      last_suggested = []\<rparr>"



text \<open>
  A string in which every whitespace character is a space and no two whitespace
  characters are adjacent; and the text as it stands after the noise patterns are removed
  and the whitespace is collapsed.
\<close>

definition single_spaced :: "ustr \<Rightarrow> bool" where
  "single_spaced s \<longleftrightarrow>
     (\<forall>c \<in> set s. is_space c \<longrightarrow> c = 32) \<and>
     (\<forall>a b. py_in [a, b] s \<longrightarrow> \<not> (is_space a \<and> is_space b))"

definition collapsed :: "ustr \<Rightarrow> ustr" where
  "collapsed text =
     re_sub False (Plus (Atom Space)) [32]
       (fold (\<lambda>pattern cleaned. re_sub True pattern [] cleaned) noise_patterns text)"

section \<open>Properties\<close>

subsection \<open>The recent-suggestions memory\<close>

lemma remember_length: "length ls \<le> 10 \<Longrightarrow> length (remember u ls) \<le> 10"
  by (simp add: remember_def Let_def)

lemma remember_full: "length ls = 10 \<Longrightarrow> remember u ls = tl ls @ [u]"
  by (cases ls) (simp_all add: remember_def Let_def)

lemma remember_room: "length ls < 10 \<Longrightarrow> remember u ls = ls @ [u]"
  by (simp add: remember_def Let_def)

lemma fold_remember_short: "length ls + length us \<le> 10 \<Longrightarrow> fold remember us ls = ls @ us"
  by (induction us arbitrary: ls) (simp_all add: remember_def Let_def)

lemma eleven_insertions: "length us = 10 \<Longrightarrow> fold remember (us @ [u]) [] = tl us @ [u]"
  using fold_remember_short [of "[]" us] by (simp add: remember_full)

lemma search_bounded: "bounded st \<Longrightarrow> bounded (snd (search_in_scraped_content q thr draw st))"
  by (auto simp: search_in_scraped_content_def bounded_def Let_def remember_length
           split: option.splits)

lemma diverse_bounded: "bounded st \<Longrightarrow> bounded (snd (get_diverse_product_samples limit rnd st))"
  by (auto simp: get_diverse_product_samples_def bounded_def Let_def split: prod.splits if_splits)

lemma alternatives_bounded: "bounded st \<Longrightarrow> bounded (snd (get_direct_alternatives q lang rnd st))"
  using diverse_bounded [of st 5 rnd]
  by (auto simp: get_direct_alternatives_def Let_def split: prod.splits if_splits)

lemma llm_bounded: "bounded st \<Longrightarrow> bounded (snd (handle_llm_query_intent uq rnd st))"
proof (cases uq)
  case (JStr q)
  assume b: "bounded st"
  obtain e c t st1 where s: "search_in_scraped_content q (3 / 10) (rnd 0) st = ((e, c, t), st1)"
    by (metis prod.exhaust)
  have b1: "bounded st1"
    using search_bounded [OF b, of q "3 / 10" "rnd 0"] s by simp
  have b2: "bounded (snd (get_direct_alternatives q (detect_language q) (\<lambda>j. rnd (Suc j)) st1))"
    by (rule alternatives_bounded [OF b1])
  show ?thesis
    using JStr s b1 b2
    by (auto simp: handle_llm_query_intent_def Let_def split: prod.splits option.splits)
qed (simp_all add: handle_llm_query_intent_def)

lemma fallback_bounded: "bounded st \<Longrightarrow> bounded (snd (handle_fallback_intent uq rnd st))"
proof (cases uq)
  case (JStr q)
  assume b: "bounded st"
  have b2: "bounded (snd (get_direct_alternatives q (detect_language q) rnd st))"
    by (rule alternatives_bounded [OF b])
  show ?thesis
    using JStr b b2
    by (auto simp: handle_fallback_intent_def Let_def split: prod.splits)
qed (simp_all add: handle_fallback_intent_def)

lemma llm_bounded_eq:
  "bounded st \<Longrightarrow> handle_llm_query_intent uq rnd st = (r, st') \<Longrightarrow> bounded st'"
  using llm_bounded [of st uq rnd] by simp

lemma fallback_bounded_eq:
  "bounded st \<Longrightarrow> handle_fallback_intent uq rnd st = (r, st') \<Longrightarrow> bounded st'"
  using fallback_bounded [of st uq rnd] by simp

lemma route_bounded: "bounded st \<Longrightarrow> route b rnd st = (r, st') \<Longrightarrow> bounded st'"
  by (auto simp: route_def Let_def split: sum.splits prod.splits if_splits
           dest: llm_bounded_eq fallback_bounded_eq)

lemma webhook_bounded: "bounded st \<Longrightarrow> bounded (snd (dialogflow_webhook req rnd st))"
  by (auto simp: dialogflow_webhook_def Let_def split: option.splits sum.splits prod.splits
           dest: route_bounded)

lemma reachable_bounded: "reachable st \<Longrightarrow> bounded st"
proof (induction rule: reachable.induct)
  case (start ps)
  show ?case by (simp add: bounded_def)
next
  case (store st ps)
  then show ?case by (simp add: bounded_def)
next
  case (search st q thr draw)
  then show ?case by (simp add: search_bounded)
next
  case (diverse st limit rnd)
  then show ?case by (simp add: diverse_bounded)
next
  case (request st req rnd)
  then show ?case by (simp add: webhook_bounded)
qed

text \<open>
  C4. In every state the process can reach, the recent-suggestions memory holds at most
  ten urls. Recording a url appends it while there is room; on a memory of ten it drops
  the first (oldest) entry and appends the new one, so that eleven insertions into the
  empty memory leave the last ten, in insertion order.
\<close>

theorem recent_suggestions_bounded_fifo:
  assumes "reachable st"
  shows "length (last_suggested st) \<le> 10 \<and>
         (length (last_suggested st) < 10 \<longrightarrow>
            remember u (last_suggested st) = last_suggested st @ [u]) \<and>
         (length (last_suggested st) = 10 \<longrightarrow>
            remember u (last_suggested st) = tl (last_suggested st) @ [u]) \<and>
         (length us = 10 \<longrightarrow> fold remember (us @ [u]) [] = tl us @ [u])"
  using reachable_bounded [OF assms] eleven_insertions [of us u]
  by (simp add: bounded_def remember_full remember_room)

theorem recent_suggestions_bounded_fifo_witness:
  "reachable (snd (search_in_scraped_content (ascii ''silk dress'') (3 / 10) 0 shop)) \<and>
   last_suggested (snd (search_in_scraped_content (ascii ''silk dress'') (3 / 10) 0 shop)) =
     [ascii ''/products/red-dress''] \<and>
   length (last_suggested (snd (search_in_scraped_content (ascii ''silk dress'') (3 / 10) 0 shop))) \<le> 10 \<and>
   fold remember (map ascii [''a'', ''b'', ''c'', ''d'', ''e'', ''f'', ''g'', ''h'', ''i'', ''j'', ''k'']) [] =
     map ascii [''b'', ''c'', ''d'', ''e'', ''f'', ''g'', ''h'', ''i'', ''j'', ''k'']"
proof -
  let ?st = "snd (search_in_scraped_content (ascii ''silk dress'') (3 / 10) 0 shop)"
  let ?us = "map ascii [''a'', ''b'', ''c'', ''d'', ''e'', ''f'', ''g'', ''h'', ''i'', ''j'']"
  have r: "reachable ?st"
    unfolding shop_def by (rule reachable.search [OF reachable.start])
  have v: "last_suggested ?st = [ascii ''/products/red-dress'']"
    by code_simp
  have l: "length ?us = 10"
    by simp
  from recent_suggestions_bounded_fifo [OF r, of "ascii ''k''" ?us] l
  have "length (last_suggested ?st) \<le> 10" and "fold remember (?us @ [ascii ''k'']) [] = tl ?us @ [ascii ''k'']"
    by blast+
  with r v show ?thesis
    by simp
qed

subsection \<open>Price queries and the memory\<close>

text \<open>
  C10. A query that contains a price keyword is answered by the price path at once: the
  matcher returns what \<open>handle_price_query\<close> computes from the lower-cased query and the
  store, the state (and so the recent-suggestions memory) is returned unchanged, and the
  answer is the same whatever the memory holds.
\<close>

theorem price_query_bypasses_memory:
  assumes "list_ex (\<lambda>word. py_in word (py_lower q)) price_keywords"
  shows "search_in_scraped_content q thr draw st = (handle_price_query (py_lower q) (pages st), st) \<and>
         (\<forall>ls. fst (search_in_scraped_content q thr draw (st\<lparr>last_suggested := ls\<rparr>)) =
               handle_price_query (py_lower q) (pages st))"
  using assms by (simp add: search_in_scraped_content_def Let_def)

theorem price_query_bypasses_memory_witness:
  "list_ex (\<lambda>word. py_in word (py_lower (ascii ''Cheap dress''))) price_keywords \<and>
   search_in_scraped_content (ascii ''Cheap dress'') (3 / 10) 0 shop =
     (handle_price_query (py_lower (ascii ''Cheap dress'')) (pages shop), shop)"
proof -
  have h: "list_ex (\<lambda>word. py_in word (py_lower (ascii ''Cheap dress''))) price_keywords"
    by code_simp
  from price_query_bypasses_memory [OF h, of "3 / 10" 0 shop] h show ?thesis
    by blast
qed

subsection \<open>The webhook reply\<close>

lemma clarification_long: "clarification lang \<noteq> [] \<and> 5 \<le> length (py_strip (clarification lang))"
proof (cases lang)
  case urdu
  have "clarification urdu \<noteq> [] \<and> 5 \<le> length (py_strip (clarification urdu))" by code_simp
  with urdu show ?thesis by simp
next
  case english
  have "clarification english \<noteq> [] \<and> 5 \<le> length (py_strip (clarification english))" by code_simp
  with english show ?thesis by simp
qed

lemma safety_check_long: "safety_check q a \<noteq> [] \<and> 5 \<le> length (py_strip (safety_check q a))"
  using clarification_long [of "detect_language q"]
  by (auto simp: safety_check_def)

lemma llm_str: "handle_llm_query_intent uq rnd st = (Inr a, st') \<Longrightarrow> \<exists>q. uq = JStr q"
  by (cases uq) (simp_all add: handle_llm_query_intent_def)

lemma fallback_str: "handle_fallback_intent uq rnd st = (Inr a, st') \<Longrightarrow> \<exists>q. uq = JStr q"
  by (cases uq) (simp_all add: handle_fallback_intent_def)

lemma route_str: "route b rnd st = (Inr (uq, a), st') \<Longrightarrow> \<exists>q. uq = JStr q"
  by (auto simp: route_def Let_def split: sum.splits prod.splits if_splits
           dest: llm_str fallback_str)

text \<open>
  C9. Whenever the webhook answers a POST request whose body parsed, the
  \<open>fulfillmentText\<close> of the response is a non-empty string of at least five characters
  after stripping: it is the answer of the handler when that is non-empty and has five
  stripped characters or more, and the fixed clarification prompt in the language
  detected for the query otherwise.
\<close>

theorem webhook_reply_min_length:
  assumes "req_method req = ascii ''POST''" and "req_body req = Some b"
    and "fst (dialogflow_webhook req rnd st) = Inr resp"
  shows "\<exists>q answer t.
           fst (route b rnd st) = Inr (JStr q, answer) \<and>
           py_get (payload resp) (ascii ''fulfillmentText'') JNull = Inr (JStr t) \<and>
           t \<noteq> [] \<and> 5 \<le> length (py_strip t) \<and>
           (if answer = [] \<or> length (py_strip answer) < 5
            then t = clarification (detect_language q) else t = answer)"
proof -
  obtain r st' where rt: "route b rnd st = (r, st')"
    by (metis prod.exhaust)
  from assms rt obtain uq answer where r: "r = Inr (uq, answer)"
    by (cases r) (auto simp: dialogflow_webhook_def)
  from route_str rt r obtain q where q: "uq = JStr q"
    by blast
  have resp: "payload resp = JObj
                [(ascii ''fulfillmentText'', JStr (safety_check q answer)),
                 (ascii ''fulfillmentMessages'',
                  JArr [JObj [(ascii ''text'', JObj [(ascii ''text'', JArr [JStr (safety_check q answer)])])]]),
                 (ascii ''source'', JStr (ascii ''webhook''))]"
    using assms rt r q by (auto simp: dialogflow_webhook_def Let_def)
  have "py_get (payload resp) (ascii ''fulfillmentText'') JNull = Inr (JStr (safety_check q answer))"
    by (simp add: resp py_get_def)
  moreover have "fst (route b rnd st) = Inr (JStr q, answer)"
    using rt r q by simp
  moreover have "if answer = [] \<or> length (py_strip answer) < 5
            then safety_check q answer = clarification (detect_language q) else safety_check q answer = answer"
    by (simp add: safety_check_def)
  ultimately show ?thesis
    using safety_check_long [of q answer] by blast
qed

theorem webhook_reply_min_length_witness:
  "req_method (post (JStr (ascii ''hi there'')) ''Default Welcome Intent'') = ascii ''POST'' \<and>
   req_body (post (JStr (ascii ''hi there'')) ''Default Welcome Intent'') =
     Some (query_body (JStr (ascii ''hi there'')) ''Default Welcome Intent'') \<and>
   (\<exists>resp t. fst (dialogflow_webhook (post (JStr (ascii ''hi there'')) ''Default Welcome Intent'') zero_draws shop) = Inr resp \<and>
      py_get (payload resp) (ascii ''fulfillmentText'') JNull = Inr (JStr t) \<and> 5 \<le> length (py_strip t))"
proof -
  let ?r = "post (JStr (ascii ''hi there'')) ''Default Welcome Intent''"
  have m: "req_method ?r = ascii ''POST''" by (simp add: post_def)
  have b: "req_body ?r = Some (query_body (JStr (ascii ''hi there'')) ''Default Welcome Intent'')"
    by (simp add: post_def)
  have "\<not> isl (fst (dialogflow_webhook ?r zero_draws shop))"
    by code_simp
  then obtain resp where r: "fst (dialogflow_webhook ?r zero_draws shop) = Inr resp"
    by (cases "fst (dialogflow_webhook ?r zero_draws shop)") simp_all
  from webhook_reply_min_length [OF m b r] r m b show ?thesis
    by blast
qed

subsection \<open>Exceptions at the webhook boundary\<close>








subsection \<open>The active flag\<close>

lemma page_score_flag: "page_score q (p\<lparr>is_active := b\<rparr>) = page_score q p"
  by (simp add: page_score_def)

lemma candidate_flag:
  "candidate q thr excl (p\<lparr>is_active := b\<rparr>) =
   map_option (\<lambda>m. m\<lparr>m_page := (m_page m)\<lparr>is_active := b\<rparr>\<rparr>) (candidate q thr excl p)"
  by (simp add: candidate_def page_score_flag shown_title_def split: prod.splits)

lemma candidate_reflag:
  "candidate q thr excl (reflag flag p) = map_option (reflag_match flag) (candidate q thr excl p)"
  by (simp add: candidate_def reflag_def reflag_match_def page_score_flag shown_title_def
           split: prod.splits)

lemma map_filter_candidate_flag:
  "List.map_filter (candidate q thr excl) (map (reflag flag) ps) =
   map (reflag_match flag) (List.map_filter (candidate q thr excl) ps)"
proof (induction ps)
  case Nil
  show ?case by (simp add: List.map_filter_simps)
next
  case (Cons p ps)
  then show ?case
    by (cases "candidate q thr excl p") (simp_all add: List.map_filter_simps candidate_reflag)
qed

lemma insort_key_reflag:
  "insort_key (\<lambda>x. - m_score x) (reflag_match flag m) (map (reflag_match flag) ms) =
   map (reflag_match flag) (insort_key (\<lambda>x. - m_score x) m ms)"
  by (induction ms) (simp_all add: reflag_match_def)

lemma sort_key_reflag:
  "sort_key (\<lambda>x. - m_score x) (map (reflag_match flag) ms) =
   map (reflag_match flag) (sort_key (\<lambda>x. - m_score x) ms)"
  by (induction ms) (simp_all add: insort_key_reflag)

lemma select_match_flag:
  "select_match draw (map (reflag_match flag) ms) = map_option (reflag_match flag) (select_match draw ms)"
proof -
  note s = sort_key_reflag [of flag ms]
  show ?thesis
  proof (cases "sort_key (\<lambda>x. - m_score x) ms")
    case Nil
    with s show ?thesis by (simp add: select_match_def)
  next
    case (Cons best rest)
    have n: "draw mod length (take 3 (best # rest)) < length (take 3 (best # rest))"
      by simp
    have "random_choice draw (take 3 (map (reflag_match flag) (best # rest))) =
          reflag_match flag (random_choice draw (take 3 (best # rest)))"
      unfolding random_choice_def take_map length_map using n by (rule nth_map)
    with s Cons show ?thesis
      by (simp add: select_match_def reflag_match_def)
  qed
qed

lemma priced_of_reflag: "priced_of (reflag flag p) = priced_of p"
  by (simp add: priced_of_def reflag_def split: option.splits)

lemma products_with_price_flag:
  "products_with_price (map (reflag flag) ps) = products_with_price ps"
proof (induction ps)
  case Nil
  show ?case by (simp add: products_with_price_def)
next
  case (Cons p ps)
  have t: "page_type (reflag flag p) = page_type p"
    by (simp add: reflag_def)
  from Cons show ?case
    by (cases "priced_of p")
       (simp_all add: products_with_price_def List.map_filter_simps priced_of_reflag t)
qed

text \<open>
  C3, as the code has it. Neither the matcher nor the price path reads \<open>is_active\<close>: the
  matcher scores every page of the store and the price path every page whose type is
  \<open>product\<close>, so their results stay the same when the flags of the pages are changed in
  any way. A page that is switched off is a candidate like any other.
\<close>

theorem is_active_not_consulted:
  "fst (search_in_scraped_content q thr draw (st\<lparr>pages := map (reflag flag) (pages st)\<rparr>)) =
     fst (search_in_scraped_content q thr draw st) \<and>
   handle_price_query ql (map (reflag flag) ps) = handle_price_query ql ps"
proof
  have a: "all_matches (py_lower q) thr (st\<lparr>pages := map (reflag flag) (pages st)\<rparr>) =
           map (reflag_match flag) (all_matches (py_lower q) thr st)"
    by (simp add: all_matches_def map_filter_candidate_flag)
  show "fst (search_in_scraped_content q thr draw (st\<lparr>pages := map (reflag flag) (pages st)\<rparr>)) =
     fst (search_in_scraped_content q thr draw st)"
    by (cases "select_match draw (all_matches (py_lower q) thr st)")
       (simp_all add: search_in_scraped_content_def Let_def a select_match_flag
          handle_price_query_def products_with_price_flag reflag_match_def)
next
  show "handle_price_query ql (map (reflag flag) ps) = handle_price_query ql ps"
    by (simp add: handle_price_query_def products_with_price_flag)
qed

theorem is_active_not_consulted_witness:
  "fst (search_in_scraped_content (ascii ''silk dress'') (3 / 10) 0
          (shop\<lparr>pages := map (reflag all_hidden) (pages shop)\<rparr>)) =
     fst (search_in_scraped_content (ascii ''silk dress'') (3 / 10) 0 shop) \<and>
   handle_price_query (ascii ''price'') (map (reflag all_hidden) (pages shop)) =
     handle_price_query (ascii ''price'') (pages shop)"
  using is_active_not_consulted [where q = "ascii ''silk dress''" and thr = "3 / 10" and draw = 0
      and st = shop and flag = all_hidden and ql = "ascii ''price''" and ps = "pages shop"]
  by simp

text \<open>
  C3 as stated fails: the only page of this store has \<open>is_active = False\<close>; it is the
  matcher's candidate and answer for "silk dress", and the price path lists it.
\<close>

theorem inactive_page_is_matched:
  "is_active hidden_dress = False \<and>
   map m_page (all_matches (ascii ''silk dress'') (3 / 10) hidden_shop) = [hidden_dress] \<and>
   fst (search_in_scraped_content (ascii ''silk dress'') (3 / 10) 0 hidden_shop) =
     (Some (ascii ''Product: Red Dress Price: Rs. 00 Description: A red silk dress.''), 9 / 10,
      Some (ascii ''Red Dress'')) \<and>
   map p_title (products_with_price (pages hidden_shop)) = [Some (ascii ''Red Dress'')] \<and>
   fst (handle_price_query (ascii ''price'') (pages hidden_shop)) =
     Some ([127775] @ ascii '' Premium options:'' @ [10, 10] @ ascii ''1. Red Dress - Rs.500'' @ [10, 10] @
           ascii ''Which one would you like to see? '' @ [128522])"
  by code_simp

subsection \<open>Selection among the candidates\<close>

lemma last_remember: "last (remember u ls) = u"
proof (cases ls)
  case Nil
  then show ?thesis by (simp add: remember_def)
next
  case (Cons x xs)
  then show ?thesis by (simp add: remember_def Let_def)
qed

lemma sort_key_head_least:
  assumes "sort_key k xs = b # rest"
  shows "b \<in> set xs \<and> (\<forall>x \<in> set xs. k b \<le> k x)"
proof -
  have s: "sorted (map k (b # rest))"
    using sorted_sort_key [of k xs] assms by simp
  have e: "set xs = set (b # rest)"
    using set_sort [of k xs] assms by simp
  from s have "\<forall>x \<in> set rest. k b \<le> k x"
    by simp
  with e show ?thesis by auto
qed

lemma search_selected:
  assumes "\<not> list_ex (\<lambda>word. py_in word (py_lower q)) price_keywords"
    and "select_match draw (all_matches (py_lower q) thr st) = Some m"
  shows "search_in_scraped_content q thr draw st = outcome m st"
  using assms by (simp add: search_in_scraped_content_def Let_def outcome_def)

lemma search_no_match:
  assumes "\<not> list_ex (\<lambda>word. py_in word (py_lower q)) price_keywords"
    and "all_matches (py_lower q) thr st = []"
  shows "fst (search_in_scraped_content q thr draw st) = (None, 0, None)"
  using assms by (simp add: search_in_scraped_content_def Let_def select_match_def)

text \<open>
  C2. When the query has no price keyword and the matcher has candidates, they are sorted
  by descending score (stably): the sorted list is a rearrangement of the candidates in
  which no candidate comes before one of higher score. If the best score exceeds 0.7 the best candidate is
  returned whatever the random draw. Otherwise the answer is one of the first three of
  the sorted candidates, the one at the position the random source draws, so that each
  of them is the answer for exactly one value of the draw. In both cases the url of the
  chosen page is appended to the recent-suggestions memory: it is its last entry
  afterwards.
\<close>

theorem selection_policy:
  assumes np: "\<not> list_ex (\<lambda>word. py_in word (py_lower q)) price_keywords"
    and ne: "all_matches (py_lower q) thr st \<noteq> []"
  shows "\<exists>best rest.
           sort_key (\<lambda>x. - m_score x) (all_matches (py_lower q) thr st) = best # rest \<and>
           mset (best # rest) = mset (all_matches (py_lower q) thr st) \<and>
           sorted_wrt (\<lambda>a b. m_score a \<ge> m_score b) (best # rest) \<and>
           best \<in> set (all_matches (py_lower q) thr st) \<and>
           (\<forall>m \<in> set (all_matches (py_lower q) thr st). m_score m \<le> m_score best) \<and>
           (m_score best > 7 / 10 \<longrightarrow>
              (\<forall>draw. search_in_scraped_content q thr draw st = outcome best st)) \<and>
           (\<not> m_score best > 7 / 10 \<longrightarrow>
              (\<forall>draw. draw < length (take 3 (best # rest)) \<longrightarrow>
                 search_in_scraped_content q thr draw st = outcome (take 3 (best # rest) ! draw) st) \<and>
              (\<forall>draw. \<exists>m \<in> set (take 3 (best # rest)).
                 search_in_scraped_content q thr draw st = outcome m st)) \<and>
           (\<forall>draw. \<exists>m \<in> set (all_matches (py_lower q) thr st).
              search_in_scraped_content q thr draw st = outcome m st \<and>
              last (last_suggested (snd (search_in_scraped_content q thr draw st))) = url (m_page m))"
proof -
  let ?ms = "all_matches (py_lower q) thr st"
  let ?k = "\<lambda>x. - m_score x"
  have "sort_key ?k ?ms \<noteq> []"
    using ne length_sort [of ?k ?ms] by (metis length_0_conv)
  then obtain best rest where srt: "sort_key ?k ?ms = best # rest"
    by (cases "sort_key ?k ?ms") auto
  let ?top = "take 3 (best # rest)"
  have perm: "mset (best # rest) = mset ?ms"
    using mset_sort [of ?k ?ms] srt by simp
  have desc: "sorted_wrt (\<lambda>a b. m_score a \<ge> m_score b) (best # rest)"
    using sorted_sort_key [of ?k ?ms] srt by (simp add: sorted_wrt_map)
  from sort_key_head_least [OF srt]
  have bin: "best \<in> set ?ms" and bmax: "\<forall>m \<in> set ?ms. m_score m \<le> m_score best"
    by auto
  have topsub: "set ?top \<subseteq> set ?ms"
    using set_take_subset [of 3 "best # rest"] set_sort [of ?k ?ms] srt by auto
  have hi: "m_score best > 7 / 10 \<Longrightarrow> select_match draw ?ms = Some best" for draw
    by (simp add: select_match_def srt)
  have lo: "\<not> m_score best > 7 / 10 \<Longrightarrow>
            select_match draw ?ms = Some (?top ! (draw mod length ?top))" for draw
    by (simp add: select_match_def srt random_choice_def)
  have idx: "?top ! (draw mod length ?top) \<in> set ?top" for draw
    by (rule nth_mem) simp
  have c1: "m_score best > 7 / 10 \<longrightarrow>
              (\<forall>draw. search_in_scraped_content q thr draw st = outcome best st)"
    using search_selected [OF np hi] by blast
  have c2: "\<not> m_score best > 7 / 10 \<longrightarrow>
              (\<forall>draw. draw < length ?top \<longrightarrow>
                 search_in_scraped_content q thr draw st = outcome (?top ! draw) st)"
  proof (intro impI allI)
    fix draw
    assume l: "\<not> m_score best > 7 / 10" and d: "draw < length ?top"
    from d have "draw mod length ?top = draw" by simp
    with search_selected [OF np lo [OF l, of draw]]
    show "search_in_scraped_content q thr draw st = outcome (?top ! draw) st" by simp
  qed
  have c3: "\<not> m_score best > 7 / 10 \<longrightarrow>
              (\<forall>draw. \<exists>m \<in> set ?top. search_in_scraped_content q thr draw st = outcome m st)"
    using search_selected [OF np lo] idx by blast
  have c4: "\<exists>m \<in> set ?ms. search_in_scraped_content q thr draw st = outcome m st \<and>
              last (last_suggested (snd (search_in_scraped_content q thr draw st))) = url (m_page m)" for draw
  proof (cases "m_score best > 7 / 10")
    case True
    with c1 have "search_in_scraped_content q thr draw st = outcome best st" by blast
    with bin show ?thesis by (auto simp: outcome_def last_remember)
  next
    case False
    with c3 obtain m where "m \<in> set ?top" "search_in_scraped_content q thr draw st = outcome m st"
      by blast
    with topsub show ?thesis by (auto simp: outcome_def last_remember)
  qed
  from srt perm desc bin bmax c1 c2 c3 c4 show ?thesis by blast
qed

theorem selection_policy_witness:
  "\<not> list_ex (\<lambda>word. py_in word (py_lower (ascii ''green dress''))) price_keywords \<and>
   all_matches (py_lower (ascii ''green dress'')) (3 / 10) dress_shop \<noteq> [] \<and>
   (\<exists>m \<in> set (all_matches (py_lower (ascii ''green dress'')) (3 / 10) dress_shop).
      search_in_scraped_content (ascii ''green dress'') (3 / 10) 1 dress_shop = outcome m dress_shop) \<and>
   search_in_scraped_content (ascii ''green dress'') (3 / 10) 1 dress_shop =
     ((Some (ascii ''Product: Blue Dress Price: Rs. 00 Description: A blue lawn dress.''), 6 / 10,
       Some (ascii ''Blue Dress'')),
      dress_shop\<lparr>last_suggested := [ascii ''/products/blue-dress'']\<rparr>)"
proof -
  have h1: "\<not> list_ex (\<lambda>word. py_in word (py_lower (ascii ''green dress''))) price_keywords"
    by code_simp
  have v: "search_in_scraped_content (ascii ''green dress'') (3 / 10) 1 dress_shop =
     ((Some (ascii ''Product: Blue Dress Price: Rs. 00 Description: A blue lawn dress.''), 6 / 10,
       Some (ascii ''Blue Dress'')),
      dress_shop\<lparr>last_suggested := [ascii ''/products/blue-dress'']\<rparr>)"
    by code_simp
  have h2: "all_matches (py_lower (ascii ''green dress'')) (3 / 10) dress_shop \<noteq> []"
    using search_no_match [OF h1, of "3 / 10" dress_shop 1] v by auto
  from selection_policy [OF h1 h2]
  have "\<exists>m \<in> set (all_matches (py_lower (ascii ''green dress'')) (3 / 10) dress_shop).
      search_in_scraped_content (ascii ''green dress'') (3 / 10) 1 dress_shop = outcome m dress_shop"
    by blast
  with h1 h2 v show ?thesis by blast
qed

subsection \<open>Exact phrase matches\<close>










subsection \<open>The price path\<close>







subsection \<open>Language detection\<close>













subsection \<open>Line filtering in the text normalizer\<close>

lemma rmatch_star_space:
  "\<exists>rest. rmatch ic (Star (Atom Space)) s = dropWhile is_space s # rest"
proof (induction s)
  case Nil
  show ?case by (subst rmatch.simps) simp
next
  case (Cons x xs)
  then obtain rest where r: "rmatch ic (Star (Atom Space)) xs = dropWhile is_space xs # rest"
    by blast
  show ?case
  proof (cases "is_space x")
    case True
    have "rmatch ic (Star (Atom Space)) (x # xs) = rmatch ic (Star (Atom Space)) xs @ [x # xs]"
      using True by (subst rmatch.simps) simp
    with r True show ?thesis by simp
  next
    case False
    have "rmatch ic (Star (Atom Space)) (x # xs) = [x # xs]"
      using False by (subst rmatch.simps) simp
    with False show ?thesis by simp
  qed
qed

lemma first_match_spaces:
  "first_match ic (Plus (Atom Space)) s =
     (case s of [] \<Rightarrow> None | x # xs \<Rightarrow> if is_space x then Some (dropWhile is_space xs) else None)"
proof (cases s)
  case Nil
  then show ?thesis by (simp add: first_match_def Plus_def)
next
  case (Cons x xs)
  obtain rest where "rmatch ic (Star (Atom Space)) xs = dropWhile is_space xs # rest"
    using rmatch_star_space by blast
  with Cons show ?thesis by (simp add: first_match_def Plus_def)
qed

lemma single_spaced_Nil: "single_spaced []"
  by (simp add: single_spaced_def)

lemma single_spaced_Cons:
  assumes "single_spaced s" and "is_space x \<longrightarrow> x = 32 \<and> (s = [] \<or> \<not> is_space (hd s))"
  shows "single_spaced (x # s)"
  unfolding single_spaced_def
proof (intro conjI allI impI ballI)
  fix c assume "c \<in> set (x # s)" "is_space c"
  with assms show "c = 32" by (auto simp: single_spaced_def)
next
  fix a b assume "py_in [a, b] (x # s)"
  then consider "prefix [a, b] (x # s)" | "py_in [a, b] s"
    by (auto simp: sublist_Cons_right)
  then show "\<not> (is_space a \<and> is_space b)"
  proof cases
    case 1
    then have "a = x" and "s \<noteq> [] \<and> hd s = b"
      by (cases s; auto)+
    with assms(2) show ?thesis by auto
  next
    case 2
    with assms(1) show ?thesis by (auto simp: single_spaced_def)
  qed
qed

lemma single_spaced_sublist: "single_spaced s \<Longrightarrow> sublist t s \<Longrightarrow> single_spaced t"
  unfolding single_spaced_def
  by (meson set_mono_sublist sublist_order.order_trans subsetD)

lemma re_sub_spaces_head:
  "\<not> is_space x \<Longrightarrow> re_sub ic (Plus (Atom Space)) [32] (x # xs) = x # re_sub ic (Plus (Atom Space)) [32] xs"
  by (subst re_sub.simps) (simp add: first_match_spaces)

lemma re_sub_spaces_space:
  "is_space x \<Longrightarrow> re_sub ic (Plus (Atom Space)) [32] (x # xs) =
     32 # re_sub ic (Plus (Atom Space)) [32] (dropWhile is_space xs)"
  using length_dropWhile_le [of is_space xs]
  by (subst re_sub.simps) (simp add: first_match_spaces)

lemma re_sub_spaces_Nil: "re_sub ic (Plus (Atom Space)) [32] [] = []"
  by (subst re_sub.simps) (simp add: first_match_spaces)

lemma collapse_single_spaced: "single_spaced (re_sub ic (Plus (Atom Space)) [32] s)"
proof (induction s rule: length_induct)
  case (1 s)
  show ?case
  proof (cases s)
    case Nil
    then show ?thesis by (simp add: re_sub_spaces_Nil single_spaced_Nil)
  next
    case (Cons x xs)
    show ?thesis
    proof (cases "is_space x")
      case False
      have "single_spaced (re_sub ic (Plus (Atom Space)) [32] xs)"
        using 1 Cons by simp
      with False Cons show ?thesis
        by (simp add: re_sub_spaces_head single_spaced_Cons)
    next
      case True
      let ?d = "dropWhile is_space xs"
      have l: "length ?d < length s"
        using length_dropWhile_le [of is_space xs] Cons by simp
      have ih: "single_spaced (re_sub ic (Plus (Atom Space)) [32] ?d)"
        using 1 l by blast
      have hd: "re_sub ic (Plus (Atom Space)) [32] ?d = [] \<or>
                \<not> is_space (hd (re_sub ic (Plus (Atom Space)) [32] ?d))"
      proof (cases ?d)
        case Nil
        then show ?thesis by (simp only: re_sub_spaces_Nil simp_thms)
      next
        case (Cons y ys)
        then have "\<not> is_space y"
          using hd_dropWhile [of is_space xs] by (metis list.sel(1) list.distinct(1))
        then have "re_sub ic (Plus (Atom Space)) [32] (y # ys) = y # re_sub ic (Plus (Atom Space)) [32] ys"
          by (rule re_sub_spaces_head)
        with Cons \<open>\<not> is_space y\<close> show ?thesis by (simp only: list.sel simp_thms)
      qed
      from True Cons ih hd show ?thesis
        by (simp add: re_sub_spaces_space single_spaced_Cons)
    qed
  qed
qed

lemma newline_is_space: "is_space 10"
  by (simp add: is_space_def)

lemma single_spaced_no_newline: "single_spaced s \<Longrightarrow> 10 \<notin> set s"
  using newline_is_space by (auto simp: single_spaced_def)

lemma first_match_newlines:
  "first_match ic (Plus (Atom (Ch 10))) s = None" if "s = [] \<or> hd s \<noteq> 10"
  using that by (cases s) (auto simp: first_match_def Plus_def lower_cp_def)

lemma re_sub_newlines_id: "10 \<notin> set s \<Longrightarrow> re_sub ic (Plus (Atom (Ch 10))) [10] s = s"
proof (induction s)
  case Nil
  show ?case by (subst re_sub.simps) (simp add: first_match_newlines)
next
  case (Cons x xs)
  then show ?case by (subst re_sub.simps) (simp add: first_match_newlines)
qed

lemma split_on_absent: "sep \<notin> set s \<Longrightarrow> split_on sep s = [s]"
  by (induction s) auto

lemma py_strip_sublist: "sublist (py_strip s) s"
proof -
  have "suffix (dropWhile is_space (rev (dropWhile is_space s))) (rev (dropWhile is_space s))"
    by (rule suffix_dropWhile)
  then have "prefix (py_strip s) (dropWhile is_space s)"
    unfolding py_strip_def by (simp add: suffix_to_prefix)
  moreover have "suffix (dropWhile is_space s) s"
    by (rule suffix_dropWhile)
  ultimately show ?thesis
    using sublist_altdef' by blast
qed

lemma py_strip_Nil: "py_strip [] = []"
  by (simp add: py_strip_def)

text \<open>
  After the whitespace is collapsed the text has no newline left, so it is filtered
  as one line: it is kept whole or dropped whole.
\<close>

lemma clean_one_line:
  "clean_scraped_text text =
     (if text \<noteq> [] \<and> length (py_strip (collapsed text)) > 10 \<and>
         \<not> only_special (py_strip (collapsed text))
      then py_strip (py_strip (collapsed text)) else [])"
proof -
  have n: "10 \<notin> set (collapsed text)"
    unfolding collapsed_def by (rule single_spaced_no_newline [OF collapse_single_spaced])
  show ?thesis
    unfolding clean_scraped_text_def Let_def collapsed_def [symmetric]
      re_sub_newlines_id [OF n] split_on_absent [OF n]
    by (auto simp: py_strip_Nil)
qed

text \<open>The output never has a run of whitespace longer than one space.\<close>

lemma clean_text_single_spaced: "single_spaced (clean_scraped_text text)"
proof -
  have "sublist (py_strip (py_strip (collapsed text))) (collapsed text)"
    using py_strip_sublist sublist_order.order_trans by blast
  moreover have "single_spaced (collapsed text)"
    unfolding collapsed_def by (rule collapse_single_spaced)
  ultimately show ?thesis
    unfolding clean_one_line using single_spaced_sublist single_spaced_Nil by auto
qed

text \<open>
  C7. The input has the two lines "hello" (five characters) and "this is a long line of
  text". Collapsing \<open>\s+\<close> to a space has already removed the newline when the text is
  split into lines, so the filter sees one long line and the short line stays in the
  output; likewise a line of special characters only.
\<close>

theorem clean_text_keeps_short_line:
  "split_on 10 (ascii ''hello'' @ [10] @ ascii ''this is a long line of text'') =
     [ascii ''hello'', ascii ''this is a long line of text''] \<and>
   length (ascii ''hello'') \<le> 10 \<and>
   clean_scraped_text (ascii ''hello'' @ [10] @ ascii ''this is a long line of text'') =
     ascii ''hello this is a long line of text'' \<and>
   clean_scraped_text (ascii ''***'' @ [10] @ ascii ''this is a long line of text'') =
     ascii ''*** this is a long line of text''"
  by code_simp

end
